theory Spec2Isabelle
  imports Complex_Main "HOL-Library.Multiset" "HOL-Library.Char_ord" "HOL-Library.List_Lexorder"
begin

section \<open>Dividend rotation engine: the model\<close>

text \<open>
  A shallow embedding of \<^verbatim>\<open>scripts/dividend_rotation_v4_real_cli_plan.py\<close>.
  Python floats are modelled as reals, so rounding, infinities and NaN are outside the
  model; a missing (NaN/None) cell of a data frame is an \<open>option\<close>. A
  \<^verbatim>\<open>datetime.date\<close> is its proleptic Gregorian ordinal
  (\<^verbatim>\<open>date.toordinal()\<close>), so that dates compare and subtract as integers.
  Exceptions are values of \<open>py_error\<close>; a function that can raise returns
  \<open>py_error + 'a\<close>.
\<close>

subsection \<open>Dates and exceptions\<close>

type_synonym date = int

text \<open>\<^verbatim>\<open>date.weekday()\<close>: Monday is 0, Sunday is 6; ordinal 1 is a Monday.\<close>

definition weekday :: "date \<Rightarrow> int" where
  "weekday d = (d + 6) mod 7"

text \<open>
  \<^verbatim>\<open>date.day\<close> of the standard library, computed from the ordinal by the usual
  era/day-of-era decomposition of the Gregorian calendar (years starting in March).
\<close>

definition day_of_month :: "date \<Rightarrow> int" where
  "day_of_month d =
     (let z = d + 305;
          era = z div 146097;
          doe = z - era * 146097;
          yoe = (doe - doe div 1460 + doe div 36524 - doe div 146096) div 365;
          doy = doe - (365 * yoe + yoe div 4 - yoe div 100);
          mp = (5 * doy + 2) div 153
      in doy - (153 * mp + 2) div 5 + 1)"

datatype py_error =
    RuntimeError string
  | RequestException string
  | ValueError string
  | ZeroDivisionError
  | IndexError
  | OtherError string

subsection \<open>The HTTP helper \<^verbatim>\<open>_get\<close>\<close>

text \<open>
  What one call of \<^verbatim>\<open>requests.get\<close> followed by the decoding of its body can
  do: deliver the parsed JSON value, answer with status 429 (with the value of the
  \<^verbatim>\<open>Retry-After\<close> header when it is present), or raise. An HTTP error status,
  a transport failure and a body that is not JSON raise \<open>RequestException\<close> or
  \<open>ValueError\<close>; any other exception is \<open>OtherError\<close>.
  The server is a function from the attempt number to the outcome of that attempt.
\<close>

datatype 'a http_outcome =
    Parsed 'a
  | RateLimited "real option"
  | Raised py_error

datatype 'a try_result =
    Return 'a
  | Continue real
  | Except py_error

text \<open>The clause \<^verbatim>\<open>except (requests.RequestException, ValueError)\<close>.\<close>

fun caught_by_get :: "py_error \<Rightarrow> bool" where
  "caught_by_get (RequestException m) = True"
| "caught_by_get (ValueError m) = True"
| "caught_by_get e = False"

text \<open>
  The body of the \<^verbatim>\<open>try\<close>. On a 429 the code sleeps for the header's value, or
  for the current backoff when the header is absent; \<^verbatim>\<open>time.sleep\<close> raises
  \<open>ValueError\<close> on a negative length.
\<close>

definition try_block :: "(nat \<Rightarrow> 'a http_outcome) \<Rightarrow> nat \<Rightarrow> real \<Rightarrow> 'a try_result" where
  "try_block server attempt backoff =
     (case server attempt of
        Parsed j \<Rightarrow> Return j
      | RateLimited h \<Rightarrow>
          (let retry_after = (case h of None \<Rightarrow> backoff | Some x \<Rightarrow> x)
           in if retry_after < 0 then Except (ValueError ''sleep length must be non-negative'')
              else Continue retry_after)
      | Raised e \<Rightarrow> Except e)"

text \<open>
  The loop \<^verbatim>\<open>for attempt in range(6)\<close> and the \<^verbatim>\<open>raise RuntimeError("Unreachable")\<close>
  after it. The result carries the number of requests sent and the list of the sleeps.
\<close>

function get_loop ::
  "(nat \<Rightarrow> 'a http_outcome) \<Rightarrow> nat \<Rightarrow> real \<Rightarrow> real list \<Rightarrow> (py_error + 'a) \<times> nat \<times> real list"
where
  "get_loop server attempt backoff slept =
     (if 6 \<le> attempt then (Inl (RuntimeError ''Unreachable''), attempt, slept)
      else
        (case try_block server attempt backoff of
           Return j \<Rightarrow> (Inr j, Suc attempt, slept)
         | Continue retry_after \<Rightarrow>
             get_loop server (Suc attempt) (min (backoff * 2) 20) (slept @ [retry_after])
         | Except e \<Rightarrow>
             if caught_by_get e then
               (if attempt = 5 then (Inl e, Suc attempt, slept)
                else get_loop server (Suc attempt) backoff (slept @ [backoff * (3 / 2) ^ attempt]))
             else (Inl e, Suc attempt, slept)))"
  by pat_completeness auto
termination
  by (relation "measure (\<lambda>(server, attempt, backoff, slept). 6 - attempt)") auto

text \<open>
  \<^verbatim>\<open>_get(url, params)\<close>. The token constant of the module is a non-empty literal, so
  \<^verbatim>\<open>_require_token\<close> never raises; the loop starts with \<^verbatim>\<open>backoff = 1.0\<close>.
\<close>

definition http_get_run :: "(nat \<Rightarrow> 'a http_outcome) \<Rightarrow> (py_error + 'a) \<times> nat \<times> real list" where
  "http_get_run server = get_loop server 0 1 []"

definition http_get :: "(nat \<Rightarrow> 'a http_outcome) \<Rightarrow> py_error + 'a" where
  "http_get server = fst (http_get_run server)"

subsection \<open>The data source\<close>

record screener_item =
  code :: string
  exchange :: string
  item_name :: string
  item_avgvol :: real
  item_dividend_yield :: real
  item_close :: real

record api_event =
  ev_code :: string
  ev_ex_date :: date
  ev_amount :: real

record dividend_row =
  dr_ex_date :: date
  dr_amount :: real

record price_row =
  px_date :: date
  adjusted_close :: real

text \<open>
  One field per endpoint: the answers of the server to the successive attempts of a
  request. Where the code tests \<^verbatim>\<open>isinstance(data, list)\<close>, the JSON value is an
  option: \<open>None\<close> is a value that is not a list.
\<close>

record gateway =
  gw_screener :: "nat \<Rightarrow> screener_item list option http_outcome"
  gw_calendar :: "nat \<Rightarrow> api_event list option http_outcome"
  gw_div :: "string \<Rightarrow> date \<Rightarrow> date \<Rightarrow> nat \<Rightarrow> dividend_row list option http_outcome"
  gw_eod :: "string \<Rightarrow> nat \<Rightarrow> price_row list http_outcome"
  gw_exchange_details :: "nat \<Rightarrow> date list http_outcome"

subsection \<open>Helpers\<close>

definition normalize_series :: "real list \<Rightarrow> real list" where
  "normalize_series series =
     (if series = [] then series
      else
        let smin = Min (set series); smax = Max (set series)
        in if smax - smin = 0 then map (\<lambda>x. 1) series
           else map (\<lambda>x. (x - smin) / (smax - smin)) series)"

text \<open>\<^verbatim>\<open>list.index\<close>: the first position of a value, \<open>None\<close> for \<^verbatim>\<open>ValueError\<close>.\<close>

fun index_of :: "'a list \<Rightarrow> 'a \<Rightarrow> nat option" where
  "index_of [] x = None"
| "index_of (y # ys) x = (if y = x then Some 0 else map_option Suc (index_of ys x))"

definition shift_trading_day_with_calendar :: "date \<Rightarrow> int \<Rightarrow> date list \<Rightarrow> date option" where
  "shift_trading_day_with_calendar ref_date offset trading_calendar =
     (if trading_calendar = [] then None
      else
        let dts = sort trading_calendar;
            base_candidates = filter (\<lambda>d. d \<le> ref_date) dts
        in if base_candidates = [] then None
           else
             let base = last base_candidates
             in (case index_of dts base of
                   None \<Rightarrow> None
                 | Some idx \<Rightarrow>
                     let tgt = int idx + offset
                     in if tgt < 0 \<or> tgt \<ge> int (length dts) then None
                        else Some (dts ! nat tgt)))"

text \<open>\<^verbatim>\<open>pd.bdate_range\<close> yields the Mondays to Fridays of the range, ascending.\<close>

definition build_trading_calendar :: "date \<Rightarrow> date \<Rightarrow> date list \<Rightarrow> date list" where
  "build_trading_calendar start_d end_d holidays =
     (let bdays = filter (\<lambda>d. weekday d < 5) [start_d..end_d]
      in filter (\<lambda>d. d \<notin> set holidays) bdays)"

definition get_us_holidays :: "gateway \<Rightarrow> date list" where
  "get_us_holidays gw =
     (case http_get (gw_exchange_details gw) of
        Inr holidays \<Rightarrow> holidays
      | Inl e \<Rightarrow> [])"


subsection \<open>Screening and the dividend calendar\<close>

record etf =
  ticker :: string
  name :: string
  avgvol :: real
  dividend_yield :: real
  close :: real

text \<open>\<^verbatim>\<open>str.upper\<close>, on the ASCII letters.\<close>

definition upper_char :: "char \<Rightarrow> char" where
  "upper_char c =
     (if CHR ''a'' \<le> c \<and> c \<le> CHR ''z'' then char_of (of_char c - (32::nat)) else c)"

definition upper :: "string \<Rightarrow> string" where
  "upper s = map upper_char s"

text \<open>The hard-coded list the screener falls back to.\<close>

definition fallback_etfs :: "screener_item list" where
  "fallback_etfs =
     [\<lparr>code = ''SCHD'', exchange = ''US'', item_name = ''Schwab US Dividend Equity ETF'',
        item_avgvol = 3500000, item_dividend_yield = 38 / 1000, item_close = 94\<rparr>,
      \<lparr>code = ''VYM'', exchange = ''US'', item_name = ''Vanguard High Dividend Yield ETF'',
        item_avgvol = 1800000, item_dividend_yield = 32 / 1000, item_close = 120\<rparr>,
      \<lparr>code = ''HDV'', exchange = ''US'', item_name = ''iShares Core High Dividend ETF'',
        item_avgvol = 950000, item_dividend_yield = 35 / 1000, item_close = 110\<rparr>,
      \<lparr>code = ''DGRO'', exchange = ''US'', item_name = ''iShares Core Dividend Growth ETF'',
        item_avgvol = 2100000, item_dividend_yield = 25 / 1000, item_close = 63\<rparr>,
      \<lparr>code = ''NOBL'', exchange = ''US'',
        item_name = ''ProShares S&P 500 Dividend Aristocrats ETF'',
        item_avgvol = 850000, item_dividend_yield = 27 / 1000, item_close = 96\<rparr>,
      \<lparr>code = ''SDIV'', exchange = ''US'', item_name = ''Global X SuperDividend U.S. ETF'',
        item_avgvol = 650000, item_dividend_yield = 89 / 1000, item_close = 29 / 2\<rparr>,
      \<lparr>code = ''JEPI'', exchange = ''US'',
        item_name = ''Janus Henderson Equity Premium Income ETF'',
        item_avgvol = 5200000, item_dividend_yield = 72 / 1000, item_close = 58\<rparr>,
      \<lparr>code = ''XYLD'', exchange = ''US'', item_name = ''Global X S&P 500 Covered Call ETF'',
        item_avgvol = 3800000, item_dividend_yield = 83 / 1000, item_close = 43\<rparr>]"

text \<open>
  \<^verbatim>\<open>screener_etfs\<close>. Every exception of the request is caught and replaced by the
  fallback list, filtered by the two thresholds. The rows are taken to carry all their
  columns.
\<close>

definition screener_etfs :: "gateway \<Rightarrow> string \<Rightarrow> real \<Rightarrow> int \<Rightarrow> etf list" where
  "screener_etfs gw exchange_arg min_div min_avgvol =
     (let data =
            (case http_get (gw_screener gw) of
               Inr (Some rows) \<Rightarrow> rows
             | Inr None \<Rightarrow> []
             | Inl e \<Rightarrow>
                 filter (\<lambda>d. item_dividend_yield d \<ge> min_div \<and> item_avgvol d \<ge> of_int min_avgvol)
                   fallback_etfs)
      in map (\<lambda>r. \<lparr>ticker = upper (code r) @ ''.'' @
                          (if exchange r = [] then exchange_arg else exchange r),
                     name = item_name r, avgvol = item_avgvol r,
                     dividend_yield = item_dividend_yield r, close = item_close r\<rparr>) data)"

record cal_row =
  cal_ticker :: string
  cal_ex_date :: date
  cal_amount :: real

definition etf_dividends :: "(string \<times> real \<times> int list) list" where
  "etf_dividends =
     [(''SCHD'', 65 / 100, [15]), (''VYM'', 72 / 100, [8, 21]), (''HDV'', 75 / 100, [10, 20]),
      (''DGRO'', 39 / 100, [25]), (''NOBL'', 58 / 100, [10]), (''SDIV'', 12 / 100, [5, 20]),
      (''JEPI'', 35 / 100, [30]), (''XYLD'', 32 / 100, [15])]"

text \<open>The mock events of the next 90 days that replace a failed calendar request.\<close>

definition fallback_events :: "date \<Rightarrow> api_event list" where
  "fallback_events today =
     concat (map (\<lambda>days_ahead.
        let check_date = today + days_ahead
        in map (\<lambda>(c, amount, dividend_days).
                  \<lparr>ev_code = c, ev_ex_date = check_date, ev_amount = amount\<rparr>)
             (filter (\<lambda>(c, amount, dividend_days). day_of_month check_date \<in> set dividend_days)
                etf_dividends)) [1..90])"

definition get_dividend_calendar :: "gateway \<Rightarrow> date \<Rightarrow> cal_row list" where
  "get_dividend_calendar gw today =
     (let events =
            (case http_get (gw_calendar gw) of
               Inr (Some evs) \<Rightarrow> evs
             | Inr None \<Rightarrow> []
             | Inl e \<Rightarrow> fallback_events today)
      in map (\<lambda>e. \<lparr>cal_ticker = (if CHR ''.'' \<notin> set (ev_code e) then ev_code e @ ''.US''
                                   else ev_code e),
                     cal_ex_date = ev_ex_date e, cal_amount = ev_amount e\<rparr>) events)"

subsection \<open>Scoring\<close>

record candidate = etf +
  ex_date :: "date option"
  amount :: "real option"
  S_col :: real
  Y_col :: real
  L_col :: real
  Y_n :: real
  L_n :: real
  S_n :: real
  Score :: real

text \<open>
  The first row of a ticker in the calendar sorted by ex-date, as
  \<^verbatim>\<open>sort_values("ex_date").groupby("ticker").first()\<close> selects it.
\<close>

definition next_ex :: "cal_row list \<Rightarrow> string \<Rightarrow> cal_row option" where
  "next_ex cal tkr =
     (case filter (\<lambda>r. cal_ticker r = tkr) (sort_key cal_ex_date cal) of
        [] \<Rightarrow> None
      | r # rs \<Rightarrow> Some r)"

definition score_S :: "date \<Rightarrow> int \<Rightarrow> date option \<Rightarrow> real" where
  "score_S today ex_lookahead_days exd =
     (case exd of
        None \<Rightarrow> 0
      | Some d \<Rightarrow>
          let days = d - today
          in if days < 0 \<or> days > ex_lookahead_days then 0
             else max 0 (1 - of_int days /
                    of_int (if ex_lookahead_days = 0 then 1 else ex_lookahead_days)))"

text \<open>
  The frame \<^verbatim>\<open>base\<close> with its columns \<^verbatim>\<open>S, Y, L, Y_n, L_n, S_n, Score\<close>, before
  it is sorted: lines 283 to 304 of the script.
\<close>

definition scored_table ::
  "cal_row list \<Rightarrow> date \<Rightarrow> etf list \<Rightarrow> int \<Rightarrow> real \<Rightarrow> real \<Rightarrow> real \<Rightarrow> candidate list"
where
  "scored_table cal today base ex_lookahead_days wY wL wS =
     (let merged = map (\<lambda>b. next_ex cal (ticker b)) base;
          S = map (\<lambda>m. score_S today ex_lookahead_days (map_option cal_ex_date m)) merged;
          Y = map dividend_yield base;
          L = map avgvol base;
          Yn = normalize_series Y;
          Ln = normalize_series L;
          Sn = normalize_series S;
          w_sum = max (1 / 10 ^ 9) (wY + wL + wS);
          wYn = wY / w_sum;
          wLn = wL / w_sum;
          wSn = wS / w_sum
      in map (\<lambda>i. etf.extend (base ! i)
                \<lparr>ex_date = map_option cal_ex_date (merged ! i),
                 amount = map_option cal_amount (merged ! i),
                 S_col = S ! i, Y_col = Y ! i, L_col = L ! i,
                 Y_n = Yn ! i, L_n = Ln ! i, S_n = Sn ! i,
                 Score = wYn * Yn ! i + wLn * Ln ! i + wSn * Sn ! i\<rparr>)
           [0..<length base])"

text \<open>\<^verbatim>\<open>DataFrame.head(n)\<close>: the first \<open>n\<close> rows, or all but the last \<open>-n\<close>.\<close>

definition head_rows :: "int \<Rightarrow> 'a list \<Rightarrow> 'a list" where
  "head_rows n xs = (if 0 \<le> n then take (nat n) xs else take (length xs - nat (- n)) xs)"

text \<open>The message of the error raised on an empty screening result, in UTF-8.\<close>

definition empty_screen_msg :: string where
  "empty_screen_msg =
     [CHR 0xE7, CHR 0xAD, CHR 0x9B, CHR 0xE9, CHR 0x80, CHR 0x89, CHR 0xE7, CHR 0xBB, CHR 0x93,
      CHR 0xE6, CHR 0x9E, CHR 0x9C, CHR 0xE4, CHR 0xB8, CHR 0xBA, CHR 0xE7, CHR 0xA9, CHR 0xBA,
      CHR 0xE3, CHR 0x80, CHR 0x82]"

text \<open>
  \<^verbatim>\<open>build_scored_candidates\<close>. The call
  \<^verbatim>\<open>base.sort_values("Score", ascending=False)\<close> runs the sort of the data-frame
  library with its default \<^verbatim>\<open>kind="quicksort"\<close>; the library is not part of the
  script, so the sort is the parameter \<open>sort_values\<close>. The current date, read from the
  clock by the script, is the parameter \<open>today\<close>.
\<close>

definition build_scored_candidates ::
  "(candidate list \<Rightarrow> candidate list) \<Rightarrow> gateway \<Rightarrow> date \<Rightarrow> string \<Rightarrow> real \<Rightarrow> int \<Rightarrow>
   int \<Rightarrow> int \<Rightarrow> real \<Rightarrow> real \<Rightarrow> real \<Rightarrow> py_error + candidate list"
where
  "build_scored_candidates sort_values gw today exchange_arg min_div min_avgvol topk
     ex_lookahead_days wY wL wS =
     (let base = screener_etfs gw exchange_arg min_div min_avgvol
      in if base = [] then Inl (RuntimeError empty_screen_msg)
         else
           let cal = get_dividend_calendar gw today
           in Inr (head_rows topk
                (sort_values (scored_table cal today base ex_lookahead_days wY wL wS))))"

text \<open>
  What the documentation of the library promises of \<^verbatim>\<open>sort_values\<close> with
  \<^verbatim>\<open>ascending=False\<close>: the rows are rearranged, largest score first. Only
  \<^verbatim>\<open>kind="mergesort"\<close> and \<^verbatim>\<open>kind="stable"\<close> are documented as stable.
\<close>

definition sort_values_contract :: "(candidate list \<Rightarrow> candidate list) \<Rightarrow> bool" where
  "sort_values_contract sort_values \<longleftrightarrow>
     (\<forall>xs. mset (sort_values xs) = mset xs
           \<and> sorted_wrt (\<lambda>a b. b \<le> a) (map Score (sort_values xs)))"

text \<open>Two sorts that meet this contract: a stable one, and one that reverses the ties.\<close>

definition stable_sort_desc :: "candidate list \<Rightarrow> candidate list" where
  "stable_sort_desc xs = rev (sort_key Score (rev xs))"

definition reversing_sort_desc :: "candidate list \<Rightarrow> candidate list" where
  "reversing_sort_desc xs = rev (sort_key Score xs)"

subsection \<open>The historical simulation\<close>

record trade =
  t_ticker :: string
  t_ex_date :: date
  buy_date :: date
  sell_date :: date
  buy_price :: real
  sell_price :: real
  shares :: real
  dividend_cash :: real
  pnl :: real

text \<open>
  The local variables of \<^verbatim>\<open>simulate_rotation\<close> that the loops update. The field
  \<open>ledger\<close> is a history variable that the script does not have: for every trade, in
  order, the cash before the purchase, after the debit and after the credit.
\<close>

record sim_state =
  cash :: real
  trades :: "trade list"
  equity_curve :: "(date \<times> real) list"
  ledger :: "(real \<times> real \<times> real) list"

text \<open>A loop whose body may raise: the first exception ends it.\<close>

fun fold_err :: "('a \<Rightarrow> 's \<Rightarrow> py_error + 's) \<Rightarrow> 'a list \<Rightarrow> 's \<Rightarrow> py_error + 's" where
  "fold_err body [] st = Inr st"
| "fold_err body (x # xs) st =
     (case body x st of Inl e \<Rightarrow> Inl e | Inr st' \<Rightarrow> fold_err body xs st')"

definition startswith :: "string \<Rightarrow> string \<Rightarrow> bool" where
  "startswith s p \<longleftrightarrow> take (length p) s = p"

text \<open>The mock dividend history that replaces a failed request (dates as ordinals).\<close>

definition mock_div_hist :: "string \<Rightarrow> dividend_row list" where
  "mock_div_hist tkr =
     (if startswith tkr ''SCHD'' then [\<lparr>dr_ex_date = 739113, dr_amount = 65 / 100\<rparr>] else []) @
     (if startswith tkr ''VYM'' then [\<lparr>dr_ex_date = 739108, dr_amount = 72 / 100\<rparr>] else []) @
     (if startswith tkr ''HDV'' then [\<lparr>dr_ex_date = 739118, dr_amount = 75 / 100\<rparr>] else []) @
     (if startswith tkr ''DGRO'' then [\<lparr>dr_ex_date = 739123, dr_amount = 39 / 100\<rparr>] else []) @
     (if startswith tkr ''NOBL'' then [\<lparr>dr_ex_date = 739139, dr_amount = 58 / 100\<rparr>] else []) @
     (if startswith tkr ''SDIV'' then [\<lparr>dr_ex_date = 739103, dr_amount = 12 / 100\<rparr>] else []) @
     (if startswith tkr ''JEPI'' then [\<lparr>dr_ex_date = 739128, dr_amount = 35 / 100\<rparr>] else []) @
     (if startswith tkr ''XYLD'' then [\<lparr>dr_ex_date = 739118, dr_amount = 32 / 100\<rparr>] else [])"

text \<open>\<^verbatim>\<open>get_eod_prices\<close>: an exception of the request is not caught here.\<close>

definition get_eod_prices :: "gateway \<Rightarrow> string \<Rightarrow> py_error + price_row list" where
  "get_eod_prices gw tkr = http_get (gw_eod gw tkr)"

text \<open>
  \<^verbatim>\<open>px.loc[px.index.date == d, "adjusted_close"].iloc[-1]\<close>: the last row of the
  date; \<^verbatim>\<open>iloc[-1]\<close> raises on an empty selection.
\<close>

definition price_on :: "price_row list \<Rightarrow> date \<Rightarrow> py_error + real" where
  "price_on px d =
     (case filter (\<lambda>p. px_date p = d) px of
        [] \<Rightarrow> Inl IndexError
      | r # rs \<Rightarrow> Inr (adjusted_close (last (r # rs))))"

text \<open>
  The body of the loop over the dividend rows of one ticker (lines 376 to 407). The
  division \<^verbatim>\<open>alloc_cash / buy_px\<close> of two floats raises on a zero price.
\<close>

definition sim_event ::
  "date \<Rightarrow> date \<Rightarrow> int \<Rightarrow> int \<Rightarrow> real \<Rightarrow> int \<Rightarrow> string \<Rightarrow> price_row list \<Rightarrow>
   dividend_row \<Rightarrow> sim_state \<Rightarrow> py_error + sim_state"
where
  "sim_event start_d end_d hold_pre hold_post alloc_per_event topk tkr px drow st =
     (let exd = dr_ex_date drow
      in if \<not> (start_d \<le> exd \<and> exd \<le> end_d) then Inr st
         else
           (case (shift_trading_day_with_calendar exd (- hold_pre) (map px_date px),
                  shift_trading_day_with_calendar exd hold_post (map px_date px)) of
              (Some buy_d, Some sell_d) \<Rightarrow>
                (case price_on px buy_d of
                   Inl e \<Rightarrow> Inl e
                 | Inr buy_px \<Rightarrow>
                     (case price_on px sell_d of
                        Inl e \<Rightarrow> Inl e
                      | Inr sell_px \<Rightarrow>
                          let alloc_cash = max 0 (cash st * alloc_per_event / of_int (max 1 topk))
                          in if alloc_cash \<le> 0 then Inr st
                             else if buy_px = 0 then Inl ZeroDivisionError
                             else
                               let shares_v = max 1 (of_int \<lfloor>alloc_cash / buy_px\<rfloor>);
                                   cost = shares_v * buy_px
                               in if cost \<le> 0 \<or> cost > cash st * (98 / 100) then Inr st
                                  else
                                    let cash1 = cash st - cost;
                                        div_cash = dr_amount drow * shares_v;
                                        proceeds = shares_v * sell_px;
                                        pnl_v = (proceeds + div_cash) - cost;
                                        cash2 = cash1 + (proceeds + div_cash)
                                    in Inr \<lparr>cash = cash2,
                                            trades = trades st @
                                              [\<lparr>t_ticker = tkr, t_ex_date = exd,
                                                buy_date = buy_d, sell_date = sell_d,
                                                buy_price = buy_px, sell_price = sell_px,
                                                shares = shares_v, dividend_cash = div_cash,
                                                pnl = pnl_v\<rparr>],
                                            equity_curve = equity_curve st @ [(sell_d, cash2)],
                                            ledger = ledger st @ [(cash st, cash1, cash2)]\<rparr>))
            | _ \<Rightarrow> Inr st))"

text \<open>The body of the loop over the ranked tickers (lines 335 to 407).\<close>

definition sim_ticker ::
  "gateway \<Rightarrow> date \<Rightarrow> date \<Rightarrow> int \<Rightarrow> int \<Rightarrow> real \<Rightarrow> int \<Rightarrow> candidate \<Rightarrow> sim_state \<Rightarrow>
   py_error + sim_state"
where
  "sim_ticker gw start_d end_d hold_pre hold_post alloc_per_event topk row st =
     (let tkr = ticker row;
          div_hist =
            (case http_get (gw_div gw tkr start_d end_d) of
               Inr d \<Rightarrow> d
             | Inl e \<Rightarrow> Some (mock_div_hist tkr))
      in case div_hist of
           None \<Rightarrow> Inr st
         | Some [] \<Rightarrow> Inr st
         | Some (d # ds) \<Rightarrow>
             (case get_eod_prices gw tkr of
                Inl e \<Rightarrow> Inl e
              | Inr px \<Rightarrow>
                  if px = [] \<or> length px < 10 then Inr st
                  else fold_err
                         (sim_event start_d end_d hold_pre hold_post alloc_per_event topk tkr px)
                         (d # ds) st))"

text \<open>
  \<^verbatim>\<open>simulate_rotation\<close>, up to the end of the two loops; the result holds the trade
  log and the equity points in the order they were appended.
\<close>

definition simulate_rotation ::
  "gateway \<Rightarrow> candidate list \<Rightarrow> date \<Rightarrow> date \<Rightarrow> real \<Rightarrow> int \<Rightarrow> int \<Rightarrow> real \<Rightarrow> int \<Rightarrow>
   py_error + sim_state"
where
  "simulate_rotation gw ranked start_d end_d initial_cash hold_pre hold_post alloc_per_event topk =
     fold_err (sim_ticker gw start_d end_d hold_pre hold_post alloc_per_event topk) ranked
       \<lparr>cash = initial_cash, trades = [], equity_curve = [], ledger = []\<rparr>"

subsection \<open>The forward plan\<close>

record future_event =
  fe_ticker :: string
  fe_name :: string
  fe_date :: date
  fe_value :: "real option"
  fe_close_price :: real

record plan_row =
  p_ticker :: string
  p_name :: string
  p_ex_date :: date
  p_amount :: "real option"
  plan_buy_date :: "date option"
  plan_sell_date :: "date option"
  estimated_gain :: real
  p_note :: string

text \<open>The note of a row whose buy or sell date could not be computed, in UTF-8.\<close>

definition no_date_note :: string where
  "no_date_note =
     [CHR 0xE6, CHR 0x97, CHR 0xA0, CHR 0xE6, CHR 0xB3, CHR 0x95, CHR 0xE8, CHR 0xAE, CHR 0xA1,
      CHR 0xE7, CHR 0xAE, CHR 0x97, CHR 0xE4, CHR 0xB9, CHR 0xB0, CHR 0x2F, CHR 0xE5, CHR 0x8D,
      CHR 0x96, CHR 0xE6, CHR 0x97, CHR 0xA5, CHR 0xE6, CHR 0x9C, CHR 0x9F]"

text \<open>
  The events of one ranked row (lines 433 to 466): the rows of the dividend endpoint
  when the request succeeds with a non-empty list, else the ex-date of the ranked row
  when it lies in the window. The rows of the endpoint carry \<^verbatim>\<open>date\<close> and
  \<^verbatim>\<open>value\<close>; the fallback row has no \<^verbatim>\<open>value\<close>.
\<close>

definition events_for :: "gateway \<Rightarrow> date \<Rightarrow> date \<Rightarrow> candidate \<Rightarrow> future_event list" where
  "events_for gw today to_day row =
     (let tkr = ticker row;
          from_api =
            (case http_get (gw_div gw tkr today to_day) of
               Inr (Some div_hist) \<Rightarrow>
                 map (\<lambda>d. \<lparr>fe_ticker = tkr, fe_name = name row, fe_date = dr_ex_date d,
                            fe_value = Some (dr_amount d), fe_close_price = close row\<rparr>) div_hist
             | _ \<Rightarrow> [])
      in if from_api \<noteq> [] then from_api
         else
           (case ex_date row of
              None \<Rightarrow> []
            | Some ex_date_val \<Rightarrow>
                if today \<le> ex_date_val \<and> ex_date_val \<le> to_day then
                  [\<lparr>fe_ticker = tkr, fe_name = name row, fe_date = ex_date_val,
                    fe_value = None, fe_close_price = close row\<rparr>]
                else []))"

text \<open>
  The body of the loop that builds the plan (lines 481 to 504). The column
  \<^verbatim>\<open>value\<close> of a row is missing when only other rows have it, and defaults to 0
  when no row has it. The gain is kept as a number; its formatting and the currency
  column are not modelled.
\<close>

definition plan_of :: "int \<Rightarrow> int \<Rightarrow> date list \<Rightarrow> bool \<Rightarrow> future_event \<Rightarrow> plan_row" where
  "plan_of hold_pre hold_post trading_cal has_value_column r =
     (let exd = fe_date r;
          buy_d = shift_trading_day_with_calendar exd (- hold_pre) trading_cal;
          sell_d = shift_trading_day_with_calendar exd hold_post trading_cal;
          note_v = (if buy_d = None \<or> sell_d = None then no_date_note else []);
          dividend_amount =
            (case fe_value r of
               Some v \<Rightarrow> Some v
             | None \<Rightarrow> if has_value_column then None else Some 0);
          close_price = fe_close_price r;
          estimated =
            (case dividend_amount of
               Some v \<Rightarrow> if close_price \<noteq> 0 \<and> close_price > 0 \<and> v > 0
                         then (v / close_price) * 100 else 0
             | None \<Rightarrow> 0)
      in \<lparr>p_ticker = fe_ticker r, p_name = fe_name r, p_ex_date = exd,
          p_amount = dividend_amount, plan_buy_date = buy_d, plan_sell_date = sell_d,
          estimated_gain = estimated, p_note = note_v\<rparr>)"

text \<open>
  \<^verbatim>\<open>build_forward_plan\<close>. The calendar covers the 30 days before today to 5 days
  after the window; the rows are sorted by ex-date, then ticker
  (\<^verbatim>\<open>sort_values(["ex_date","ticker"])\<close>).
\<close>

definition trading_cal_of :: "gateway \<Rightarrow> date \<Rightarrow> int \<Rightarrow> date list" where
  "trading_cal_of gw today ex_lookahead_days =
     build_trading_calendar (today - 30) (today + ex_lookahead_days + 5) (get_us_holidays gw)"

definition all_future_events :: "gateway \<Rightarrow> date \<Rightarrow> candidate list \<Rightarrow> int \<Rightarrow> future_event list" where
  "all_future_events gw today ranked ex_lookahead_days =
     concat (map (events_for gw today (today + ex_lookahead_days)) ranked)"

definition build_forward_plan ::
  "gateway \<Rightarrow> date \<Rightarrow> candidate list \<Rightarrow> int \<Rightarrow> int \<Rightarrow> int \<Rightarrow> plan_row list"
where
  "build_forward_plan gw today ranked hold_pre hold_post ex_lookahead_days =
     (let trading_cal = trading_cal_of gw today ex_lookahead_days;
          events = all_future_events gw today ranked ex_lookahead_days
      in if events = [] then []
         else map (plan_of hold_pre hold_post trading_cal (\<exists>e\<in>set events. fe_value e \<noteq> None))
                (sort_key fe_date (sort_key fe_ticker events)))"

subsection \<open>Notions used to state the properties\<close>

text \<open>The most recent date of a calendar that is not after a reference date.\<close>

definition base_of :: "date \<Rightarrow> date list \<Rightarrow> date" where
  "base_of r cal = Max {d \<in> set cal. d \<le> r}"


text \<open>The scored frame of a run, before it is sorted and cut to the top rows.\<close>

definition candidate_frame ::
  "gateway \<Rightarrow> date \<Rightarrow> string \<Rightarrow> real \<Rightarrow> int \<Rightarrow> int \<Rightarrow> real \<Rightarrow> real \<Rightarrow> real \<Rightarrow> candidate list"
where
  "candidate_frame gw today exchange_arg min_div min_avgvol ex_lookahead_days wY wL wS =
     scored_table (get_dividend_calendar gw today) today
       (screener_etfs gw exchange_arg min_div min_avgvol) ex_lookahead_days wY wL wS"

subsection \<open>Sample data sources\<close>

text \<open>A source that answers no request: every attempt fails at the transport.\<close>

definition gw_down :: gateway where
  "gw_down =
     \<lparr>gw_screener = (\<lambda>i. Raised (RequestException ''connection refused'')),
      gw_calendar = (\<lambda>i. Raised (RequestException ''connection refused'')),
      gw_div = (\<lambda>tkr d1 d2 i. Raised (RequestException ''connection refused'')),
      gw_eod = (\<lambda>tkr i. Raised (RequestException ''connection refused'')),
      gw_exchange_details = (\<lambda>i. Raised (RequestException ''connection refused''))\<rparr>"

text \<open>
  A source with two funds and no scheduled dividend: the first has the lower yield and
  the higher volume.
\<close>

definition gw_two :: gateway where
  "gw_two =
     \<lparr>gw_screener = (\<lambda>i. Parsed (Some
        [\<lparr>code = ''AAA'', exchange = ''US'', item_name = ''Fund A'',
           item_avgvol = 900000, item_dividend_yield = 2 / 100, item_close = 50\<rparr>,
         \<lparr>code = ''BBB'', exchange = ''US'', item_name = ''Fund B'',
           item_avgvol = 300000, item_dividend_yield = 4 / 100, item_close = 20\<rparr>])),
      gw_calendar = (\<lambda>i. Parsed (Some [])),
      gw_div = (\<lambda>tkr d1 d2 i. Parsed (Some [])),
      gw_eod = (\<lambda>tkr i. Parsed []),
      gw_exchange_details = (\<lambda>i. Parsed [])\<rparr>"

section \<open>Trading-day arithmetic\<close>

lemma index_of_sorted:
  "sorted xs \<Longrightarrow> b \<in> set xs \<Longrightarrow> index_of xs b = Some (length (filter (\<lambda>x. x < b) xs))"
proof (induction xs)
  case Nil
  then show ?case by simp
next
  case (Cons y ys)
  show ?case
  proof (cases "y = b")
    case True
    from Cons.prems have "\<forall>z\<in>set ys. b \<le> z" using True by simp
    then have "filter (\<lambda>x. x < b) ys = []" by (auto simp: filter_empty_conv)
    with True show ?thesis by simp
  next
    case False
    with Cons.prems have "b \<in> set ys" "y < b" "sorted ys" by auto
    with Cons.IH False show ?thesis by simp
  qed
qed

lemma index_of_nth: "index_of xs b = Some i \<Longrightarrow> i < length xs \<and> xs ! i = b"
  by (induction xs arbitrary: i) (auto split: if_splits)

lemma sorted_last_Max:
  fixes xs :: "'a::linorder list"
  assumes "sorted xs" "xs \<noteq> []"
  shows "last xs = Max (set xs)"
proof -
  have "y \<le> last xs" if "y \<in> set xs" for y
  proof -
    from that obtain i where i: "i < length xs" "xs ! i = y" by (auto simp: in_set_conv_nth)
    then have "xs ! i \<le> xs ! (length xs - 1)"
      using assms(1) by (intro sorted_nth_mono) auto
    with i assms(2) show ?thesis by (simp add: last_conv_nth)
  qed
  moreover have "last xs \<in> set xs" using assms(2) by simp
  ultimately show ?thesis by (intro Max_eqI [symmetric]) auto
qed

lemma last_filter_le_sorted:
  fixes r :: "'a::linorder"
  assumes "sorted xs" "filter (\<lambda>d. d \<le> r) xs \<noteq> []"
  shows "last (filter (\<lambda>d. d \<le> r) xs) = Max {d \<in> set xs. d \<le> r}"
proof -
  have "sorted (filter (\<lambda>d. d \<le> r) xs)" using assms(1) by (rule sorted_wrt_filter)
  then have "last (filter (\<lambda>d. d \<le> r) xs) = Max (set (filter (\<lambda>d. d \<le> r) xs))"
    using assms(2) by (rule sorted_last_Max)
  then show ?thesis by simp
qed

lemma base_of_in:
  assumes "\<exists>d\<in>set cal. d \<le> r"
  shows "base_of r cal \<in> set cal" "base_of r cal \<le> r"
proof -
  have "finite {d \<in> set cal. d \<le> r}" "{d \<in> set cal. d \<le> r} \<noteq> {}" using assms by auto
  then have "Max {d \<in> set cal. d \<le> r} \<in> {d \<in> set cal. d \<le> r}" by (rule Max_in)
  then show "base_of r cal \<in> set cal" "base_of r cal \<le> r" by (simp_all add: base_of_def)
qed

lemma base_of_member: "r \<in> set cal \<Longrightarrow> base_of r cal = r"
  unfolding base_of_def by (intro Max_eqI) auto

text \<open>The position of the base date in the sorted calendar.\<close>

lemma base_index:
  assumes "\<exists>d\<in>set cal. d \<le> r"
  shows "index_of (sort cal) (base_of r cal) =
           Some (length (filter (\<lambda>x. x < base_of r cal) cal))"
proof -
  have "index_of (sort cal) (base_of r cal) =
          Some (length (filter (\<lambda>x. x < base_of r cal) (sort cal)))"
    using base_of_in(1) [OF assms] by (intro index_of_sorted) auto
  also have "length (filter (\<lambda>x. x < base_of r cal) (sort cal)) =
               length (filter (\<lambda>x. x < base_of r cal) cal)"
    by (metis mset_filter mset_sort size_mset)
  finally show ?thesis .
qed

lemma shift_char:
  "shift_trading_day_with_calendar r off cal =
     (if \<not> (\<exists>d\<in>set cal. d \<le> r) then None
      else let tgt = int (length (filter (\<lambda>x. x < base_of r cal) cal)) + off
           in if tgt < 0 \<or> tgt \<ge> int (length cal) then None
              else Some (sort cal ! nat tgt))"
proof (cases "\<exists>d\<in>set cal. d \<le> r")
  case False
  then have "filter (\<lambda>d. d \<le> r) (sort cal) = []" by (auto simp: filter_empty_conv)
  with False show ?thesis by (simp add: shift_trading_day_with_calendar_def)
next
  case True
  then have ne: "cal \<noteq> []" by auto
  from True have fne: "filter (\<lambda>d. d \<le> r) (sort cal) \<noteq> []" by (auto simp: filter_empty_conv)
  have l: "last (filter (\<lambda>d. d \<le> r) (sort cal)) = base_of r cal"
    using last_filter_le_sorted [OF sorted_sort fne] by (simp add: base_of_def)
  show ?thesis
    using True ne fne
    by (simp add: shift_trading_day_with_calendar_def l base_index [OF True] Let_def)
qed

lemma shift_SomeD:
  assumes "shift_trading_day_with_calendar r off cal = Some x"
  obtains i where "\<exists>d\<in>set cal. d \<le> r" "i < length cal" "sort cal ! i = base_of r cal"
    "0 \<le> int i + off" "int i + off < int (length cal)" "x = sort cal ! nat (int i + off)"
proof -
  from assms have ex: "\<exists>d\<in>set cal. d \<le> r" by (auto simp: shift_char split: if_splits)
  let ?i = "length (filter (\<lambda>x. x < base_of r cal) cal)"
  have "?i < length cal" "sort cal ! ?i = base_of r cal"
    using index_of_nth [OF base_index [OF ex]] by simp_all
  moreover from assms ex have "0 \<le> int ?i + off" "int ?i + off < int (length cal)"
    "x = sort cal ! nat (int ?i + off)"
    by (auto simp: shift_char Let_def split: if_splits)
  ultimately show thesis using that ex by blast
qed

lemma shift_member:
  "shift_trading_day_with_calendar r off cal = Some x \<Longrightarrow> x \<in> set cal"
  by (erule shift_SomeD) (metis length_sort nat_less_iff nth_mem set_sort)

lemma shift_back_le:
  assumes "shift_trading_day_with_calendar r off cal = Some x" "off \<le> 0"
  shows "x \<le> r"
proof -
  from assms(1) obtain i where i: "\<exists>d\<in>set cal. d \<le> r" "i < length cal"
    "sort cal ! i = base_of r cal" "0 \<le> int i + off" "x = sort cal ! nat (int i + off)"
    by (rule shift_SomeD)
  have "sort cal ! nat (int i + off) \<le> sort cal ! i"
    using i(2,4) assms(2) by (intro sorted_nth_mono) auto
  with i(3,5) base_of_in(2) [OF i(1)] show ?thesis by simp
qed

lemma shift_forward_ge_base:
  assumes "shift_trading_day_with_calendar r off cal = Some x" "0 \<le> off"
  shows "base_of r cal \<le> x"
proof -
  from assms(1) obtain i where i: "i < length cal"
    "sort cal ! i = base_of r cal" "int i + off < int (length cal)" "x = sort cal ! nat (int i + off)"
    by (rule shift_SomeD)
  have "sort cal ! i \<le> sort cal ! nat (int i + off)"
    using i(1,3) assms(2) by (intro sorted_nth_mono) auto
  with i(2,4) show ?thesis by simp
qed

lemma shift_forward_strict:
  assumes "shift_trading_day_with_calendar r off cal = Some x" "1 \<le> off" "distinct cal"
  shows "r < x"
proof -
  from assms(1) obtain i where i: "i < length cal"
    "sort cal ! i = base_of r cal" "int i + off < int (length cal)" "x = sort cal ! nat (int i + off)"
    by (rule shift_SomeD)
  have "sorted_wrt (<) (sort cal)" using assms(3) by (simp add: strict_sorted_iff)
  moreover have "i < nat (int i + off)" "nat (int i + off) < length (sort cal)"
    using i(1,3) assms(2) by auto
  ultimately have "sort cal ! i < sort cal ! nat (int i + off)"
    by (rule sorted_wrt_nth_less)
  with i(2,4) have lt: "base_of r cal < x" by simp
  have "x \<in> set cal" using assms(1) by (rule shift_member)
  show ?thesis
  proof (rule ccontr)
    assume "\<not> r < x"
    with \<open>x \<in> set cal\<close> have "x \<in> {d \<in> set cal. d \<le> r}" by simp
    then have "x \<le> base_of r cal" unfolding base_of_def by (intro Max_ge) auto
    with lt show False by simp
  qed
qed

text \<open>
  Claim C4. With offset 0 the shift returns the reference date when it is in the
  calendar, and otherwise the most recent calendar date not after it. When no calendar
  date is at or before the reference date, or when the position of the base date plus
  the offset is not a position of the calendar, the result is \<open>None\<close>; the function
  has no raising path.
\<close>

theorem shift_offset_zero_and_failures:
  "(d \<in> set cal \<longrightarrow> shift_trading_day_with_calendar d 0 cal = Some d)
   \<and> ((\<exists>x\<in>set cal. x \<le> d) \<longrightarrow>
        shift_trading_day_with_calendar d 0 cal = Some (Max {x \<in> set cal. x \<le> d}))
   \<and> ((\<forall>x\<in>set cal. d < x) \<longrightarrow> shift_trading_day_with_calendar d off cal = None)
   \<and> (\<forall>idx. index_of (sort cal) (Max {x \<in> set cal. x \<le> d}) = Some idx
          \<and> (int idx + off < 0 \<or> int (length cal) \<le> int idx + off)
        \<longrightarrow> shift_trading_day_with_calendar d off cal = None)"
proof (intro conjI impI allI)
  assume ex: "\<exists>x\<in>set cal. x \<le> d"
  have "length (filter (\<lambda>x. x < base_of d cal) cal) < length cal"
    "sort cal ! length (filter (\<lambda>x. x < base_of d cal) cal) = base_of d cal"
    using index_of_nth [OF base_index [OF ex]] by simp_all
  with ex show "shift_trading_day_with_calendar d 0 cal = Some (Max {x \<in> set cal. x \<le> d})"
    by (simp add: shift_char Let_def) (simp add: base_of_def)
next
  assume m: "d \<in> set cal"
  then have ex: "\<exists>x\<in>set cal. x \<le> d" by auto
  have "length (filter (\<lambda>x. x < base_of d cal) cal) < length cal"
    "sort cal ! length (filter (\<lambda>x. x < base_of d cal) cal) = base_of d cal"
    using index_of_nth [OF base_index [OF ex]] by simp_all
  with ex base_of_member [OF m] show "shift_trading_day_with_calendar d 0 cal = Some d"
    by (simp add: shift_char Let_def)
next
  assume "\<forall>x\<in>set cal. d < x"
  then have "\<not> (\<exists>x\<in>set cal. x \<le> d)" by auto
  then show "shift_trading_day_with_calendar d off cal = None" by (simp add: shift_char)
next
  fix idx
  assume a: "index_of (sort cal) (Max {x \<in> set cal. x \<le> d}) = Some idx
     \<and> (int idx + off < 0 \<or> int (length cal) \<le> int idx + off)"
  show "shift_trading_day_with_calendar d off cal = None"
  proof (cases "\<exists>x\<in>set cal. x \<le> d")
    case False
    then show ?thesis by (simp add: shift_char)
  next
    case True
    from base_index [OF True] a
    have "idx = length (filter (\<lambda>x. x < base_of d cal) cal)" by (simp add: base_of_def)
    with a True show ?thesis by (auto simp: shift_char Let_def)
  qed
qed

theorem shift_offset_zero_and_failures_witness:
  "(12::int) \<in> set [10, 12, 11, 15]
   \<and> shift_trading_day_with_calendar 12 0 [10, 12, 11, 15] = Some 12
   \<and> (\<exists>x\<in>set [10, 12, 11, 15]. x \<le> (13::int))
   \<and> shift_trading_day_with_calendar 13 0 [10, 12, 11, 15] = Some 12
   \<and> shift_trading_day_with_calendar 5 2 [10, 12, 11, 15] = None
   \<and> index_of (sort [10, 12, 11, 15]) (12::int) = Some 2
   \<and> shift_trading_day_with_calendar 12 2 [10, 12, 11, 15] = None
   \<and> shift_trading_day_with_calendar 12 (-3) [10, 12, 11, 15] = None"
  using shift_offset_zero_and_failures [of 12 "[10, 12, 11, 15]" 0]
    shift_offset_zero_and_failures [of 13 "[10, 12, 11, 15]" 0]
    shift_offset_zero_and_failures [of 5 "[10, 12, 11, 15]" 2]
    shift_offset_zero_and_failures [of 12 "[10, 12, 11, 15]" 2]
    shift_offset_zero_and_failures [of 12 "[10, 12, 11, 15]" "-3"]
  by (simp add: shift_trading_day_with_calendar_def)

section \<open>The retry loop\<close>







section \<open>Scoring\<close>

lemma length_normalize_series [simp]: "length (normalize_series xs) = length xs"
  by (simp add: normalize_series_def Let_def)

lemma normalize_series_const:
  assumes "xs \<noteq> []" "\<forall>x\<in>set xs. x = c"
  shows "normalize_series xs = map (\<lambda>x. 1) xs"
proof -
  from assms have "set xs = {c}" by (cases xs) auto
  then show ?thesis using assms(1) by (simp add: normalize_series_def)
qed

lemma length_scored_table [simp]:
  "length (scored_table cal today base la wY wL wS) = length base"
  by (simp add: scored_table_def Let_def)

lemma scored_table_nth:
  assumes "i < length base"
  shows "S_col (scored_table cal today base la wY wL wS ! i) =
           score_S today la (ex_date (scored_table cal today base la wY wL wS ! i))"
    and "S_n (scored_table cal today base la wY wL wS ! i) =
           normalize_series (map S_col (scored_table cal today base la wY wL wS)) ! i"
    and "Score (scored_table cal today base la wY wL wS ! i) =
           wY / max (1 / 10 ^ 9) (wY + wL + wS) * Y_n (scored_table cal today base la wY wL wS ! i)
         + wL / max (1 / 10 ^ 9) (wY + wL + wS) * L_n (scored_table cal today base la wY wL wS ! i)
         + wS / max (1 / 10 ^ 9) (wY + wL + wS) * S_n (scored_table cal today base la wY wL wS ! i)"
proof -
  have S: "map S_col (scored_table cal today base la wY wL wS) =
             map (\<lambda>b. score_S today la (map_option cal_ex_date (next_ex cal (ticker b)))) base"
    by (rule nth_equalityI) (simp_all add: scored_table_def Let_def etf.extend_def)
  show "S_col (scored_table cal today base la wY wL wS ! i) =
           score_S today la (ex_date (scored_table cal today base la wY wL wS ! i))"
    using assms by (simp add: scored_table_def Let_def etf.extend_def)
  show "S_n (scored_table cal today base la wY wL wS ! i) =
           normalize_series (map S_col (scored_table cal today base la wY wL wS)) ! i"
    unfolding S using assms by (simp add: scored_table_def Let_def etf.extend_def comp_def)
  show "Score (scored_table cal today base la wY wL wS ! i) =
           wY / max (1 / 10 ^ 9) (wY + wL + wS) * Y_n (scored_table cal today base la wY wL wS ! i)
         + wL / max (1 / 10 ^ 9) (wY + wL + wS) * L_n (scored_table cal today base la wY wL wS ! i)
         + wS / max (1 / 10 ^ 9) (wY + wL + wS) * S_n (scored_table cal today base la wY wL wS ! i)"
    using assms by (simp add: scored_table_def Let_def etf.extend_def)
qed

lemma frame_rows:
  assumes "r \<in> set (scored_table cal today base la wY wL wS)"
  shows "S_col r = score_S today la (ex_date r)"
    and "Score r = wY / max (1 / 10 ^ 9) (wY + wL + wS) * Y_n r
                 + wL / max (1 / 10 ^ 9) (wY + wL + wS) * L_n r
                 + wS / max (1 / 10 ^ 9) (wY + wL + wS) * S_n r"
proof -
  from assms obtain i where i: "i < length base" "r = scored_table cal today base la wY wL wS ! i"
    by (auto simp: in_set_conv_nth)
  show "S_col r = score_S today la (ex_date r)"
    unfolding i(2) using i(1) by (rule scored_table_nth(1))
  show "Score r = wY / max (1 / 10 ^ 9) (wY + wL + wS) * Y_n r
                 + wL / max (1 / 10 ^ 9) (wY + wL + wS) * L_n r
                 + wS / max (1 / 10 ^ 9) (wY + wL + wS) * S_n r"
    unfolding i(2) using i(1) by (rule scored_table_nth(3))
qed

lemma frame_S_n:
  "map S_n (scored_table cal today base la wY wL wS) =
     normalize_series (map S_col (scored_table cal today base la wY wL wS))"
  by (rule nth_equalityI) (simp_all add: scored_table_nth(2))

lemma frame_S_n_const:
  assumes "\<forall>r\<in>set (scored_table cal today base la wY wL wS). S_col r = c"
    and "r \<in> set (scored_table cal today base la wY wL wS)"
  shows "S_n r = 1"
proof -
  let ?T = "scored_table cal today base la wY wL wS"
  from assms(2) have ne: "map S_col ?T \<noteq> []" by auto
  from assms(1) have "\<forall>x\<in>set (map S_col ?T). x = c" by auto
  with ne have "normalize_series (map S_col ?T) = map (\<lambda>x. 1) (map S_col ?T)"
    by (rule normalize_series_const)
  then have "map S_n ?T = map (\<lambda>r. 1) ?T" by (simp add: frame_S_n comp_def)
  with assms(2) show ?thesis by (metis (mono_tags, lifting) map_eq_conv)
qed

lemma build_scored_eq:
  "build_scored_candidates sv gw today ex mind minv topk la wY wL wS =
     (if screener_etfs gw ex mind minv = [] then Inl (RuntimeError empty_screen_msg)
      else Inr (head_rows topk (sv (candidate_frame gw today ex mind minv la wY wL wS))))"
  by (simp add: build_scored_candidates_def candidate_frame_def Let_def)

lemma set_head_rows: "set (head_rows n xs) \<subseteq> set xs"
  by (auto simp: head_rows_def dest: in_set_takeD)

lemma contract_set: "sort_values_contract sv \<Longrightarrow> set (sv xs) = set xs"
  unfolding sort_values_contract_def by (metis mset_eq_setD)

lemma ranked_rows:
  assumes "sort_values_contract sv"
    and "build_scored_candidates sv gw today ex mind minv topk la wY wL wS = Inr ranked"
  shows "set ranked \<subseteq> set (candidate_frame gw today ex mind minv la wY wL wS)"
  using assms(2) set_head_rows [of topk "sv (candidate_frame gw today ex mind minv la wY wL wS)"]
    contract_set [OF assms(1)]
  by (auto simp: build_scored_eq split: if_splits)

lemma stable_sort_desc_contract: "sort_values_contract stable_sort_desc"
  by (simp add: sort_values_contract_def stable_sort_desc_def rev_map [symmetric]
      sorted_wrt_rev sorted_wrt_map sorted_sort_key [unfolded sorted_wrt_map])

lemma reversing_sort_desc_contract: "sort_values_contract reversing_sort_desc"
  by (simp add: sort_values_contract_def reversing_sort_desc_def rev_map [symmetric]
      sorted_wrt_rev sorted_wrt_map sorted_sort_key [unfolded sorted_wrt_map])

text \<open>
  Claim C9. The proximity column \<open>S\<close> is min-max normalised over the candidate set
  like the other two, and the composite score weights the normalised column. When
  every candidate has the same raw proximity, for instance 0 because none has an
  upcoming ex-date, every ranked candidate has the normalised proximity 1, which enters
  its score with the full proximity weight.
\<close>

theorem proximity_normalized_before_weighting:
  assumes "sort_values_contract sv"
    and "build_scored_candidates sv gw today ex mind minv topk la wY wL wS = Inr ranked"
  shows "map S_n (candidate_frame gw today ex mind minv la wY wL wS) =
           normalize_series (map S_col (candidate_frame gw today ex mind minv la wY wL wS))
       \<and> (\<forall>r\<in>set ranked.
            r \<in> set (candidate_frame gw today ex mind minv la wY wL wS)
            \<and> S_col r = score_S today la (ex_date r)
            \<and> Score r = wY / max (1 / 10 ^ 9) (wY + wL + wS) * Y_n r
                       + wL / max (1 / 10 ^ 9) (wY + wL + wS) * L_n r
                       + wS / max (1 / 10 ^ 9) (wY + wL + wS) * S_n r)
       \<and> ((\<forall>r\<in>set (candidate_frame gw today ex mind minv la wY wL wS). S_col r = c) \<longrightarrow>
            (\<forall>r\<in>set ranked.
               S_n r = 1
               \<and> Score r = wY / max (1 / 10 ^ 9) (wY + wL + wS) * Y_n r
                          + wL / max (1 / 10 ^ 9) (wY + wL + wS) * L_n r
                          + wS / max (1 / 10 ^ 9) (wY + wL + wS)))"
proof -
  let ?F = "candidate_frame gw today ex mind minv la wY wL wS"
  have sub: "set ranked \<subseteq> set ?F" using assms by (rule ranked_rows)
  have 1: "map S_n ?F = normalize_series (map S_col ?F)"
    unfolding candidate_frame_def by (rule frame_S_n)
  have 2: "r \<in> set ?F \<and> S_col r = score_S today la (ex_date r)
            \<and> Score r = wY / max (1 / 10 ^ 9) (wY + wL + wS) * Y_n r
                       + wL / max (1 / 10 ^ 9) (wY + wL + wS) * L_n r
                       + wS / max (1 / 10 ^ 9) (wY + wL + wS) * S_n r"
    if "r \<in> set ranked" for r
  proof -
    from that sub have r: "r \<in> set ?F" by auto
    then show ?thesis
      using frame_rows [of r "get_dividend_calendar gw today" today
          "screener_etfs gw ex mind minv" la wY wL wS]
      by (simp add: candidate_frame_def)
  qed
  have 3: "S_n r = 1
           \<and> Score r = wY / max (1 / 10 ^ 9) (wY + wL + wS) * Y_n r
                      + wL / max (1 / 10 ^ 9) (wY + wL + wS) * L_n r
                      + wS / max (1 / 10 ^ 9) (wY + wL + wS)"
    if c: "\<forall>r\<in>set ?F. S_col r = c" and r: "r \<in> set ranked" for r
  proof -
    from r sub have "r \<in> set ?F" by auto
    with c have "S_n r = 1"
      unfolding candidate_frame_def by (rule frame_S_n_const)
    with 2 [OF r] show ?thesis by simp
  qed
  from 1 2 3 show ?thesis by blast
qed

theorem proximity_normalized_before_weighting_witness:
  "(case build_scored_candidates stable_sort_desc gw_two 739924 ''US'' 0 0 10 90
          (2 / 5) (1 / 4) (7 / 20) of
      Inr ranked \<Rightarrow>
        map ticker ranked = [''BBB.US'', ''AAA.US'']
        \<and> map S_col ranked = [0, 0] \<and> map S_n ranked = [1, 1]
        \<and> map Score ranked = [3 / 4, 3 / 5]
    | Inl e \<Rightarrow> False)"
proof -
  let ?ranked =
    "[\<lparr>ticker = ''BBB.US'', name = ''Fund B'', avgvol = 300000, dividend_yield = 1 / 25,
        close = 20, ex_date = None, amount = None, S_col = 0, Y_col = 1 / 25,
        L_col = 300000, Y_n = 1, L_n = 0, S_n = 1, Score = 3 / 4\<rparr>,
      \<lparr>ticker = ''AAA.US'', name = ''Fund A'', avgvol = 900000, dividend_yield = 1 / 50,
        close = 50, ex_date = None, amount = None, S_col = 0, Y_col = 1 / 50,
        L_col = 900000, Y_n = 0, L_n = 1, S_n = 1, Score = 3 / 5\<rparr>]"
  have run: "build_scored_candidates stable_sort_desc gw_two 739924 ''US'' 0 0 10 90
               (2 / 5) (1 / 4) (7 / 20) = Inr ?ranked"
    by code_simp
  have cols: "map S_col (candidate_frame gw_two 739924 ''US'' 0 0 90 (2 / 5) (1 / 4) (7 / 20)) = [0, 0]"
    by code_simp
  have same: "\<forall>r\<in>set (candidate_frame gw_two 739924 ''US'' 0 0 90 (2 / 5) (1 / 4) (7 / 20)).
                S_col r = 0"
  proof
    fix r
    assume "r \<in> set (candidate_frame gw_two 739924 ''US'' 0 0 90 (2 / 5) (1 / 4) (7 / 20))"
    then have "S_col r \<in> set (map S_col
        (candidate_frame gw_two 739924 ''US'' 0 0 90 (2 / 5) (1 / 4) (7 / 20)))"
      by simp
    then show "S_col r = 0" unfolding cols by simp
  qed
  from proximity_normalized_before_weighting [OF stable_sort_desc_contract run, of 0] same
  have "\<forall>r\<in>set ?ranked. S_n r = 1" by blast
  then show ?thesis by (simp add: run)
qed




text \<open>
  The ranking is in non-increasing order of the composite score, for every sort that
  rearranges the rows into that order. This is the part of claim C6 that does not
  depend on how the library orders rows with equal scores.
\<close>

theorem ranked_descending:
  assumes "sort_values_contract sv"
    and "build_scored_candidates sv gw today ex mind minv topk la wY wL wS = Inr ranked"
  shows "sorted_wrt (\<lambda>a b. b \<le> a) (map Score ranked)
       \<and> set ranked \<subseteq> set (candidate_frame gw today ex mind minv la wY wL wS)"
proof
  let ?F = "candidate_frame gw today ex mind minv la wY wL wS"
  from assms(1) have "sorted_wrt (\<lambda>a b. b \<le> a) (map Score (sv ?F))"
    by (simp add: sort_values_contract_def)
  then have "sorted_wrt (\<lambda>a b. b \<le> a) (map Score (head_rows topk (sv ?F)))"
    by (simp add: head_rows_def take_map [symmetric] sorted_wrt_take)
  with assms(2) show "sorted_wrt (\<lambda>a b. b \<le> a) (map Score ranked)"
    by (auto simp: build_scored_eq split: if_splits)
  show "set ranked \<subseteq> set ?F" using assms by (rule ranked_rows)
qed

theorem ranked_descending_witness:
  "(case build_scored_candidates stable_sort_desc gw_two 739924 ''US'' 0 0 10 90
          (2 / 5) (1 / 4) (7 / 20) of
      Inr ranked \<Rightarrow> sorted_wrt (\<lambda>a b. b \<le> a) (map Score ranked) \<and> map Score ranked = [3 / 4, 3 / 5]
    | Inl e \<Rightarrow> False)"
proof -
  let ?ranked =
    "[\<lparr>ticker = ''BBB.US'', name = ''Fund B'', avgvol = 300000, dividend_yield = 1 / 25,
        close = 20, ex_date = None, amount = None, S_col = 0, Y_col = 1 / 25,
        L_col = 300000, Y_n = 1, L_n = 0, S_n = 1, Score = 3 / 4\<rparr>,
      \<lparr>ticker = ''AAA.US'', name = ''Fund A'', avgvol = 900000, dividend_yield = 1 / 50,
        close = 50, ex_date = None, amount = None, S_col = 0, Y_col = 1 / 50,
        L_col = 900000, Y_n = 0, L_n = 1, S_n = 1, Score = 3 / 5\<rparr>]"
  have run: "build_scored_candidates stable_sort_desc gw_two 739924 ''US'' 0 0 10 90
               (2 / 5) (1 / 4) (7 / 20) = Inr ?ranked"
    by code_simp
  from ranked_descending [OF stable_sort_desc_contract run]
  have "sorted_wrt (\<lambda>a b. b \<le> a) (map Score ?ranked)" by blast
  then show ?thesis by (simp add: run)
qed

text \<open>
  The contract of the sort alone does not fix the order of rows with equal scores: the
  sort that orders ascending and reverses meets it, and ranks the second of two tied
  funds first. This says nothing about the order the library's own algorithm produces;
  that algorithm is not part of the script, so the stability part of claim C6 is left
  open here.
\<close>

theorem contract_leaves_tie_order_open:
  "sort_values_contract reversing_sort_desc
   \<and> map ticker (candidate_frame gw_two 739924 ''US'' 0 0 90 1 1 0) = [''AAA.US'', ''BBB.US'']
   \<and> map Score (candidate_frame gw_two 739924 ''US'' 0 0 90 1 1 0) = [1 / 2, 1 / 2]
   \<and> (case build_scored_candidates reversing_sort_desc gw_two 739924 ''US'' 0 0 10 90 1 1 0 of
        Inr ranked \<Rightarrow> map ticker ranked = [''BBB.US'', ''AAA.US'']
      | Inl e \<Rightarrow> False)"
proof -
  have "map ticker (candidate_frame gw_two 739924 ''US'' 0 0 90 1 1 0) = [''AAA.US'', ''BBB.US'']"
    by code_simp
  moreover have "map Score (candidate_frame gw_two 739924 ''US'' 0 0 90 1 1 0) = [1 / 2, 1 / 2]"
    by code_simp
  moreover have
    "(case build_scored_candidates reversing_sort_desc gw_two 739924 ''US'' 0 0 10 90 1 1 0 of
        Inr ranked \<Rightarrow> map ticker ranked = [''BBB.US'', ''AAA.US'']
      | Inl e \<Rightarrow> False)"
    by code_simp
  ultimately show ?thesis using reversing_sort_desc_contract by simp
qed

end
